theory Spec2Isabelle
  imports Complex_Main "HOL-Library.Word" "HOL-Library.Sublist" "HOL-Library.AList"
begin

section \<open>Status summary widget (client, \<open>AppCore.updateTasksStatusWidget\<close>)\<close>

text \<open>
  The widget counts the cards of the four status columns and turns the counts into four
  whole-percent widths. The source computes \<open>(s/total)*100\<close> and \<open>Math.round\<close> on
  numbers; the model computes the same quotient exactly, over the rationals, and
  \<open>Math.round\<close> as "floor of the value plus one half" (halves round upwards).
\<close>

record count =
  backlog_n :: nat
  progress_n :: nat
  review_n :: nat
  done_n :: nat

record widths =
  rb :: int
  rp :: int
  rr :: int
  rd :: int

definition Math_round :: "rat \<Rightarrow> int" where
  "Math_round v = \<lfloor>v + 1 / 2\<rfloor>"

text \<open>\<open>const total = Math.max(1, count.backlog + count.progress + count.review + count.done)\<close>\<close>

definition total_c :: "count \<Rightarrow> nat" where
  "total_c c = max 1 (backlog_n c + progress_n c + review_n c + done_n c)"

text \<open>\<open>const pct = s => (s/total)*100\<close>\<close>

definition pct :: "count \<Rightarrow> nat \<Rightarrow> rat" where
  "pct c s = (of_nat s / of_nat (total_c c)) * 100"

text \<open>\<open>const round = v => Math.max(0, Math.round(v))\<close>\<close>

definition round_w :: "rat \<Rightarrow> int" where
  "round_w v = max 0 (Math_round v)"

text \<open>
  The body of \<open>stacks.forEach\<close> up to the calls of \<open>setBasis\<close>: the four rounded widths,
  the all-zero convention, and the residual put on the done segment.
\<close>

definition segment_widths :: "count \<Rightarrow> widths" where
  "segment_widths c =
     (let b0 = round_w (pct c (backlog_n c));
          p0 = round_w (pct c (progress_n c));
          r0 = round_w (pct c (review_n c));
          d0 = round_w (pct c (done_n c));
          sum0 = b0 + p0 + r0 + d0;
          d1 = (if sum0 = 0 then 100 else d0);
          sum1 = (if sum0 = 0 then 100 else sum0);
          d2 = (if sum1 \<noteq> 100 then max 0 (d1 + (100 - sum1)) else d1)
      in \<lparr>rb = b0, rp = p0, rr = r0, rd = d2\<rparr>)"

definition widths_sum :: "widths \<Rightarrow> int" where
  "widths_sum w = rb w + rp w + rr w + rd w"

section \<open>Server (\<open>server.js\<close>): sessions and the two guards\<close>

text \<open>
  The persistence layer is a document store reached through the global \<open>db\<close>. A
  collection is the list of its documents in insertion order. Any operation on it can
  throw (no connection yet, server unreachable): the handle is \<open>None\<close> then, and
  every operation from it is an error value.
\<close>

datatype js_error = TypeError | RangeError | MongoError

type_synonym oid = nat

record session =
  token :: string
  userId :: oid
  createdAt :: int
  expiresAt :: int

datatype json =
    JNull
  | JBool bool
  | JNum rat
  | JStr string
  | JArr "json list"
  | JObj "(string \<times> json) list"

text \<open>
  A task document: its \<open>_id\<close>, its owner \<open>userId\<close> (both ObjectIds), and the
  remaining fields by name, in the order they were written.
\<close>

record task =
  task_id :: oid
  task_userId :: oid
  task_fields :: "(string \<times> json) list"

record database =
  sessions :: "session list"
  tasks :: "task list"

text \<open>\<open>db.collection('sessions').findOne({ token })\<close>\<close>

definition sessions_findOne :: "database option \<Rightarrow> string \<Rightarrow> js_error + session option" where
  "sessions_findOne db tok =
     (case db of
        None \<Rightarrow> Inl MongoError
      | Some d \<Rightarrow> Inr (find (\<lambda>s. token s = tok) (sessions d)))"

text \<open>
  \<open>getSession(token)\<close>, with \<open>Date.now()\<close> as the argument \<open>now\<close>. The test
  \<open>s.expiresAt && s.expiresAt < Date.now()\<close> holds for a non-zero \<open>expiresAt\<close>
  strictly below \<open>now\<close>.
\<close>

definition getSession :: "int \<Rightarrow> database option \<Rightarrow> string \<Rightarrow> js_error + session option" where
  "getSession now db tok =
     (if tok = [] then Inr None
      else case sessions_findOne db tok of
             Inl e \<Rightarrow> Inl e
           | Inr None \<Rightarrow> Inr None
           | Inr (Some s) \<Rightarrow>
               if expiresAt s \<noteq> 0 \<and> expiresAt s < now then Inr None else Inr (Some s))"

record request =
  req_method :: string
  path :: string
  authorization :: "string option"
  cookie :: "string option"

datatype payload = Error string | Ok | Task task | Tasks "task list"

datatype response =
    Json nat payload
  | Redirect string
  | SendFile string
  | NoResponse

text \<open>\<open>req.headers[name] || ''\<close>\<close>

definition header :: "string option \<Rightarrow> string" where
  "header h = (case h of None \<Rightarrow> [] | Some v \<Rightarrow> v)"

text \<open>\<open>h.startsWith('Bearer ') ? h.slice(7) : ''\<close>\<close>

definition bearer :: "string \<Rightarrow> string" where
  "bearer h = (if prefix ''Bearer '' h then drop 7 h else [])"

text \<open>
  \<open>authRequired\<close>: the user id it attaches to the request (\<open>Inr\<close>), or the 401
  response it sends, also when the lookup throws.
\<close>

definition authRequired :: "int \<Rightarrow> database option \<Rightarrow> request \<Rightarrow> response + oid" where
  "authRequired now db req =
     (let h = header (authorization req);
          tok = bearer h
      in case getSession now db tok of
           Inl e \<Rightarrow> Inl (Json 401 (Error ''Unauthorized''))
         | Inr None \<Rightarrow> Inl (Json 401 (Error ''Unauthorized''))
         | Inr (Some s) \<Rightarrow> Inr (userId s))"

text \<open>
  The cookie pattern \<open>/(?:^|;\s*)token=([^;]+)/\<close>. \<open>token_here\<close> matches
  \<open>token=([^;]+)\<close> at the head of a string and gives the captured group;
  \<open>semicolon_here\<close> matches the second alternative at the head of a string;
  \<open>semicolon_from\<close> tries it at every position from left to right. After the
  semicolon the white space is skipped greedily: no shorter skip can match, since
  \<open>token=\<close> does not begin with white space.
\<close>

definition is_space :: "char \<Rightarrow> bool" where
  "is_space c = (c \<in> set [CHR 0x09, CHR 0x0A, CHR 0x0B, CHR 0x0C, CHR 0x0D, CHR 0x20, CHR 0xA0])"

definition token_here :: "string \<Rightarrow> string option" where
  "token_here s =
     (if prefix ''token='' s
      then (let v = takeWhile (\<lambda>c. c \<noteq> CHR '';'') (drop 6 s)
            in if v = [] then None else Some v)
      else None)"

fun semicolon_here :: "string \<Rightarrow> string option" where
  "semicolon_here [] = None"
| "semicolon_here (c # s) =
     (if c = CHR '';'' then token_here (dropWhile is_space s) else None)"

fun semicolon_from :: "string \<Rightarrow> string option" where
  "semicolon_from [] = None"
| "semicolon_from (c # s) =
     (case semicolon_here (c # s) of
        Some v \<Rightarrow> Some v
      | None \<Rightarrow> semicolon_from s)"

definition cookie_token :: "string \<Rightarrow> string option" where
  "cookie_token s =
     (case token_here s of
        Some v \<Rightarrow> Some v
      | None \<Rightarrow> semicolon_from s)"

text \<open>\<open>const token = tokenHeader || tokenCookie || ''\<close>, shared by the page guard and
  \<open>sessionFromRequest\<close>.\<close>

definition request_token :: "request \<Rightarrow> string" where
  "request_token req =
     (let h = header (authorization req);
          tokenHeader = bearer h;
          cookie = header (cookie req);
          tokenCookie = cookie_token cookie
      in if tokenHeader \<noteq> [] then tokenHeader
         else case tokenCookie of Some v \<Rightarrow> v | None \<Rightarrow> [])"

definition get_or_head :: "request \<Rightarrow> bool" where
  "get_or_head req = (req_method req = ''GET'' \<or> req_method req = ''HEAD'')"

definition isHtml :: "request \<Rightarrow> bool" where
  "isHtml req = (get_or_head req \<and> (path req = ''/'' \<or> suffix ''.html'' (path req)))"

definition allowed :: "string list" where
  "allowed = [''/login.html'', ''/signup.html'']"

text \<open>
  The middleware that protects HTML pages. Its whole body is inside
  \<open>try { ... } catch (_) {}\<close>, followed by \<open>next()\<close>: an exception of the lookup
  ends in \<open>Next\<close>.
\<close>

datatype guard = Redirected string | Next

definition html_guard :: "database option \<Rightarrow> request \<Rightarrow> guard" where
  "html_guard db req =
     (if isHtml req \<and> path req \<notin> set allowed
      then (let tok = request_token req
            in case (if tok \<noteq> [] then sessions_findOne db tok else Inr None) of
                 Inl e \<Rightarrow> Next
               | Inr None \<Rightarrow> Redirected ''/login.html''
               | Inr (Some s) \<Rightarrow> Next)
      else Next)"

definition sessionFromRequest :: "database option \<Rightarrow> request \<Rightarrow> js_error + session option" where
  "sessionFromRequest db req =
     (let tok = request_token req
      in if tok \<noteq> [] then sessions_findOne db tok else Inr None)"

text \<open>
  The page routes \<open>/\<close>, \<open>/index.html\<close>, \<open>/tasks.html\<close>, \<open>/inbox.html\<close> and
  \<open>/analytics.html\<close>. Their handlers are \<open>async\<close> without a \<open>try\<close>: when the
  lookup throws, no response is sent. Any other path is answered 404 by the framework.
\<close>

definition page_routes :: "string list" where
  "page_routes = [''/index.html'', ''/tasks.html'', ''/inbox.html'', ''/analytics.html'']"

definition page_route :: "database option \<Rightarrow> request \<Rightarrow> response" where
  "page_route db req =
     (if get_or_head req \<and> (path req = ''/'' \<or> path req \<in> set page_routes)
      then (case sessionFromRequest db req of
              Inl e \<Rightarrow> NoResponse
            | Inr None \<Rightarrow> Redirect ''/login.html''
            | Inr (Some s) \<Rightarrow>
                SendFile (if path req = ''/'' then ''index.html'' else drop 1 (path req)))
      else Json 404 (Error ''Not found''))"

text \<open>
  A request for a page goes through the guard, then \<open>express.static(__dirname, { index:
  false })\<close>, which answers a GET or HEAD whose path names a file of the directory
  (\<open>files\<close>, the paths of those files), then the page routes.
\<close>

definition serve_page :: "string list \<Rightarrow> database option \<Rightarrow> request \<Rightarrow> response" where
  "serve_page files db req =
     (case html_guard db req of
        Redirected l \<Rightarrow> Redirect l
      | Next \<Rightarrow>
          if get_or_head req \<and> path req \<in> set files then SendFile (drop 1 (path req))
          else page_route db req)"

section \<open>Server: the credential store (\<open>hashPassword\<close>, \<open>verifyPassword\<close>)\<close>

text \<open>
  Buffers are lists of bytes. \<open>crypto.randomBytes\<close> and \<open>crypto.scryptSync\<close> belong
  to the runtime: the model takes the entropy source as a parameter \<open>rnd\<close> (its
  \<open>i\<close>-th byte) and the key derivation as a parameter \<open>kdf\<close> (the \<open>i\<close>-th byte
  of the key derived from a password and a salt), and reads as many bytes as the call
  asks for.
\<close>

type_synonym byte = "8 word"

definition randomBytes :: "(nat \<Rightarrow> byte) \<Rightarrow> nat \<Rightarrow> byte list" where
  "randomBytes rnd n = map rnd [0..<n]"

definition scryptSync :: "(string \<Rightarrow> string \<Rightarrow> nat \<Rightarrow> byte) \<Rightarrow> string \<Rightarrow> string \<Rightarrow> nat \<Rightarrow> byte list" where
  "scryptSync kdf password salt keylen = map (kdf password salt) [0..<keylen]"

text \<open>\<open>buf.toString('hex')\<close>: two lower-case digits for each byte.\<close>

definition hex_digit :: "nat \<Rightarrow> char" where
  "hex_digit n = ''0123456789abcdef'' ! n"

definition toString_hex :: "byte list \<Rightarrow> string" where
  "toString_hex bs = concat (map (\<lambda>b. [hex_digit (unat b div 16), hex_digit (unat b mod 16)]) bs)"

text \<open>
  \<open>Buffer.from(s, 'hex')\<close>: decodes pairs of hexadecimal digits of either case and
  stops at the first pair that is not one (a trailing single character is dropped).
\<close>

definition hex_value :: "char \<Rightarrow> nat option" where
  "hex_value c =
     (let n = of_char c :: nat
      in if 48 \<le> n \<and> n \<le> 57 then Some (n - 48)
         else if 97 \<le> n \<and> n \<le> 102 then Some (n - 87)
         else if 65 \<le> n \<and> n \<le> 70 then Some (n - 55)
         else None)"

fun Buffer_from_hex :: "string \<Rightarrow> byte list" where
  "Buffer_from_hex (a # b # s) =
     (case hex_value a of
        None \<Rightarrow> []
      | Some x \<Rightarrow>
          (case hex_value b of
             None \<Rightarrow> []
           | Some y \<Rightarrow> of_nat (16 * x + y) # Buffer_from_hex s))"
| "Buffer_from_hex [a] = []"
| "Buffer_from_hex [] = []"

text \<open>\<open>crypto.timingSafeEqual(a, b)\<close> throws a RangeError when the two buffers differ
  in length.\<close>

definition timingSafeEqual :: "byte list \<Rightarrow> byte list \<Rightarrow> js_error + bool" where
  "timingSafeEqual a b = (if length a \<noteq> length b then Inl RangeError else Inr (a = b))"

text \<open>\<open>str.split(sep)\<close> for a one-character separator.\<close>

fun split :: "char \<Rightarrow> string \<Rightarrow> string list" where
  "split sep [] = [[]]"
| "split sep (c # s) =
     (if c = sep then [] # split sep s
      else (case split sep s of
              [] \<Rightarrow> [[c]]
            | p # ps \<Rightarrow> (c # p) # ps))"

definition hashPassword :: "(nat \<Rightarrow> byte) \<Rightarrow> (string \<Rightarrow> string \<Rightarrow> nat \<Rightarrow> byte) \<Rightarrow> string \<Rightarrow> string" where
  "hashPassword rnd kdf password =
     (let salt = toString_hex (randomBytes rnd 16);
          hash = toString_hex (scryptSync kdf password salt 64)
      in salt @ '':'' @ hash)"

text \<open>
  \<open>verifyPassword(password, stored)\<close>; \<open>stored\<close> is \<open>None\<close> for a missing
  (undefined) value. \<open>const [salt, hash] = parts\<close> reads the first two parts, a missing
  one being undefined and so falsy, as the empty string is.
\<close>

definition verifyPassword :: "(string \<Rightarrow> string \<Rightarrow> nat \<Rightarrow> byte) \<Rightarrow> string \<Rightarrow> string option \<Rightarrow> js_error + bool" where
  "verifyPassword kdf password stored =
     (case split CHR '':'' (case stored of None \<Rightarrow> [] | Some s \<Rightarrow> s) of
        salt # hash # rest \<Rightarrow>
          if salt = [] \<or> hash = [] then Inr False
          else (let calc = toString_hex (scryptSync kdf password salt 64)
                in timingSafeEqual (Buffer_from_hex hash) (Buffer_from_hex calc))
      | _ \<Rightarrow> Inr False)"

section \<open>Server: the task handlers\<close>

text \<open>
  What the handlers take from the runtime and the driver is a parameter of the model:
  the two date formats, the date parser behind \<open>new Date(string)\<close> (\<open>None\<close> for an
  invalid date, on which \<open>toISOString\<close> throws a RangeError), \<open>String(v)\<close> for a value
  that is not a string, and the \<open>ObjectId\<close> constructor (\<open>None\<close> where it throws on a
  malformed id).
\<close>

record env =
  toISOString :: "int \<Rightarrow> string"
  toLocaleString_IN :: "int \<Rightarrow> string"
  new_Date :: "string \<Rightarrow> int option"
  String_of :: "json \<Rightarrow> string"
  ObjectId :: "string \<Rightarrow> oid option"

text \<open>Truthiness and \<open>typeof\<close> of a value parsed from a JSON body.\<close>

fun truthy :: "json \<Rightarrow> bool" where
  "truthy JNull = False"
| "truthy (JBool b) = b"
| "truthy (JNum n) = (n \<noteq> 0)"
| "truthy (JStr s) = (s \<noteq> [])"
| "truthy (JArr xs) = True"
| "truthy (JObj kvs) = True"

fun typeof :: "json \<Rightarrow> string" where
  "typeof JNull = ''object''"
| "typeof (JBool b) = ''boolean''"
| "typeof (JNum n) = ''number''"
| "typeof (JStr s) = ''string''"
| "typeof (JArr xs) = ''object''"
| "typeof (JObj kvs) = ''object''"

definition String_js :: "env \<Rightarrow> json \<Rightarrow> string" where
  "String_js e v = (case v of JStr s \<Rightarrow> s | _ \<Rightarrow> String_of e v)"

text \<open>\<open>str.replace(a, b)\<close> for one-character strings: the first occurrence only.\<close>

fun replace :: "char \<Rightarrow> char \<Rightarrow> string \<Rightarrow> string" where
  "replace a b [] = []"
| "replace a b (c # s) = (if c = a then b # s else c # replace a b s)"

text \<open>The test \<open>/^\d{4}-\d{2}-\d{2}T\d{2}:\d{2}$/\<close>.\<close>

datatype char_class = Digit | Lit char

fun in_class :: "char_class \<Rightarrow> char \<Rightarrow> bool" where
  "in_class Digit c = (48 \<le> (of_char c :: nat) \<and> (of_char c :: nat) \<le> 57)"
| "in_class (Lit l) c = (c = l)"

definition datetime_local :: "string \<Rightarrow> bool" where
  "datetime_local s =
     list_all2 in_class
       [Digit, Digit, Digit, Digit, Lit CHR ''-'', Digit, Digit, Lit CHR ''-'', Digit, Digit,
        Lit CHR ''T'', Digit, Digit, Lit CHR '':'', Digit, Digit] s"

text \<open>
  A request body is the object parsed by \<open>express.json()\<close>: a map from field names to
  values, an absent field reading as undefined.
\<close>

type_synonym body = "string \<rightharpoonup> json"

text \<open>A destructuring default applies to an undefined field only.\<close>

definition default_to :: "json \<Rightarrow> json option \<Rightarrow> json" where
  "default_to dflt v = (case v of None \<Rightarrow> dflt | Some x \<Rightarrow> x)"

text \<open>
  \<open>insertOne\<close> stores the document under the ObjectId the driver generated for it
  (\<open>new_id\<close>); the collection's unique index on \<open>_id\<close> rejects a duplicate.
\<close>

definition tasks_insertOne :: "database option \<Rightarrow> task \<Rightarrow> js_error + database" where
  "tasks_insertOne db doc =
     (case db of
        None \<Rightarrow> Inl MongoError
      | Some d \<Rightarrow>
          if task_id doc \<in> set (map task_id (tasks d)) then Inl MongoError
          else Inr (d\<lparr>tasks := tasks d @ [doc]\<rparr>))"

text \<open>\<open>find(filter).sort({ _id: -1 }).toArray()\<close>\<close>

definition tasks_find_sorted :: "database option \<Rightarrow> (task \<Rightarrow> bool) \<Rightarrow> js_error + task list" where
  "tasks_find_sorted db flt =
     (case db of
        None \<Rightarrow> Inl MongoError
      | Some d \<Rightarrow> Inr (rev (sort_key task_id (filter flt (tasks d)))))"

text \<open>
  \<open>findOneAndUpdate(filter, update, { returnDocument: 'after' })\<close> changes the first
  document that matches and gives it back as \<open>result.value\<close>, or gives null.
  \<open>deleteOne(filter)\<close> removes the first document that matches and counts it.
\<close>

fun findOneAndUpdate :: "(task \<Rightarrow> bool) \<Rightarrow> (task \<Rightarrow> task) \<Rightarrow> task list \<Rightarrow> task option \<times> task list" where
  "findOneAndUpdate flt upd [] = (None, [])"
| "findOneAndUpdate flt upd (t # ts) =
     (if flt t then (Some (upd t), upd t # ts)
      else (case findOneAndUpdate flt upd ts of (r, ts') \<Rightarrow> (r, t # ts')))"

fun deleteOne :: "(task \<Rightarrow> bool) \<Rightarrow> task list \<Rightarrow> nat \<times> task list" where
  "deleteOne flt [] = (0, [])"
| "deleteOne flt (t # ts) =
     (if flt t then (1, ts)
      else (case deleteOne flt ts of (n, ts') \<Rightarrow> (n, t # ts')))"

text \<open>\<open>{ $set: update }\<close>: each field of the update is written over the document's field
  of that name, or added after the last field. An update without fields changes nothing.\<close>

definition set_fields :: "(string \<times> json) list \<Rightarrow> (string \<times> json) list \<Rightarrow> (string \<times> json) list" where
  "set_fields update doc = fold (\<lambda>(k, v). AList.update k v) update doc"

subsection \<open>\<open>GET /api/tasks\<close>\<close>

definition GET_api_tasks :: "database option \<Rightarrow> oid \<Rightarrow> response" where
  "GET_api_tasks db uid =
     (case tasks_find_sorted db (\<lambda>t. task_userId t = uid) of
        Inl err \<Rightarrow> Json 500 (Error ''Failed to fetch tasks'')
      | Inr ts \<Rightarrow> Json 200 (Tasks ts))"

subsection \<open>\<open>POST /api/tasks\<close>\<close>

text \<open>
  \<open>now\<close> is the instant of \<open>new Date()\<close> and \<open>now_ms\<close> the later reading
  \<open>Date.now()\<close> stored as \<open>createdAt\<close>. The deadline is normalised inside its own
  \<open>try\<close>: an unparseable one becomes null.
\<close>

definition create_deadline :: "env \<Rightarrow> json option \<Rightarrow> json" where
  "create_deadline e deadline =
     (case deadline of
        None \<Rightarrow> JNull
      | Some v \<Rightarrow>
          if truthy v
          then (case new_Date e (replace CHR '' '' CHR ''T'' (String_js e v)) of
                  None \<Rightarrow> JNull
                | Some t \<Rightarrow> JStr (toISOString e t))
          else JNull)"

definition POST_api_tasks :: "env \<Rightarrow> int \<Rightarrow> int \<Rightarrow> oid \<Rightarrow> database option \<Rightarrow> oid \<Rightarrow> body \<Rightarrow> response \<times> database option" where
  "POST_api_tasks e now now_ms new_id db uid b =
     (let priority = default_to (JStr ''Medium'') (b ''priority'');
          status = default_to (JStr ''backlog'') (b ''status'');
          assignee = default_to (JStr []) (b ''assignee'');
          starred = default_to (JBool False) (b ''starred'');
          deadline = b ''deadline''
      in case b ''title'' of
           None \<Rightarrow> (Json 400 (Error ''Title is required''), db)
         | Some title \<Rightarrow>
             if \<not> truthy title \<or> typeof title \<noteq> ''string''
             then (Json 400 (Error ''Title is required''), db)
             else (let doc = \<lparr>task_id = new_id, task_userId = uid,
                              task_fields =
                                [(''title'', title),
                                 (''priority'', priority),
                                 (''status'', status),
                                 (''assignee'', assignee),
                                 (''starred'', JBool (truthy starred)),
                                 (''createdAt'', JNum (of_int now_ms)),
                                 (''assignedAt'', JStr (toISOString e now)),
                                 (''assignedAtIST'', JStr (toLocaleString_IN e now)),
                                 (''deadline'', create_deadline e deadline)]\<rparr>
                   in case tasks_insertOne db doc of
                        Inl err \<Rightarrow> (Json 500 (Error ''Failed to create task''), db)
                      | Inr d' \<Rightarrow> (Json 201 (Task doc), Some d')))"

subsection \<open>\<open>PATCH /api/tasks/:id\<close>\<close>

definition mutable_fields :: "string list" where
  "mutable_fields = [''title'', ''priority'', ''status'', ''assignee'', ''starred'', ''deadline'']"

text \<open>The \<open>forEach\<close> over the accepted field names: the fields of the body that are
  not undefined, in that order.\<close>

definition collect_update :: "body \<Rightarrow> (string \<times> json) list" where
  "collect_update b =
     concat (map (\<lambda>k. case b k of None \<Rightarrow> [] | Some v \<Rightarrow> [(k, v)]) mutable_fields)"

text \<open>A truthy deadline is normalised; one that does not parse is deleted from the
  update.\<close>

definition update_deadline :: "env \<Rightarrow> (string \<times> json) list \<Rightarrow> (string \<times> json) list" where
  "update_deadline e update =
     (case map_of update ''deadline'' of
        None \<Rightarrow> update
      | Some v \<Rightarrow>
          if truthy v
          then (let dstr0 = replace CHR '' '' CHR ''T'' (String_js e v);
                    dstr = (if datetime_local dstr0 then dstr0 @ '':00'' else dstr0)
                in case new_Date e dstr of
                     None \<Rightarrow> AList.delete ''deadline'' update
                   | Some t \<Rightarrow> AList.update ''deadline'' (JStr (toISOString e t)) update)
          else update)"

text \<open>\<open>if (update.status === 'done')\<close>: stamp \<open>completedAt\<close> and its display form.\<close>

definition stamp_completed :: "env \<Rightarrow> int \<Rightarrow> (string \<times> json) list \<Rightarrow> (string \<times> json) list" where
  "stamp_completed e now update =
     (if map_of update ''status'' = Some (JStr ''done'')
      then AList.update ''completedAtIST'' (JStr (toLocaleString_IN e now))
             (AList.update ''completedAt'' (JStr (toISOString e now)) update)
      else update)"

definition PATCH_api_tasks_id :: "env \<Rightarrow> int \<Rightarrow> database option \<Rightarrow> oid \<Rightarrow> string \<Rightarrow> body \<Rightarrow> response \<times> database option" where
  "PATCH_api_tasks_id e now db uid id_param b =
     (let update = stamp_completed e now (update_deadline e (collect_update b))
      in case db of
           None \<Rightarrow> (Json 500 (Error ''Failed to update task''), db)
         | Some d \<Rightarrow>
             (case ObjectId e id_param of
                None \<Rightarrow> (Json 500 (Error ''Failed to update task''), db)
              | Some i \<Rightarrow>
                  (case findOneAndUpdate (\<lambda>t. task_id t = i \<and> task_userId t = uid)
                          (\<lambda>t. t\<lparr>task_fields := set_fields update (task_fields t)\<rparr>) (tasks d) of
                     (None, ts) \<Rightarrow> (Json 404 (Error ''Not found''), db)
                   | (Some t', ts) \<Rightarrow> (Json 200 (Task t'), Some (d\<lparr>tasks := ts\<rparr>)))))"

subsection \<open>\<open>DELETE /api/tasks/:id\<close>\<close>

definition DELETE_api_tasks_id :: "env \<Rightarrow> database option \<Rightarrow> oid \<Rightarrow> string \<Rightarrow> response \<times> database option" where
  "DELETE_api_tasks_id e db uid id_param =
     (case db of
        None \<Rightarrow> (Json 500 (Error ''Failed to delete task''), db)
      | Some d \<Rightarrow>
          (case ObjectId e id_param of
             None \<Rightarrow> (Json 500 (Error ''Failed to delete task''), db)
           | Some i \<Rightarrow>
               (case deleteOne (\<lambda>t. task_id t = i \<and> task_userId t = uid) (tasks d) of
                  (n, ts) \<Rightarrow>
                    if n = 0 then (Json 404 (Error ''Not found''), db)
                    else (Json 200 Ok, Some (d\<lparr>tasks := ts\<rparr>)))))"

section \<open>Client: dropping a card on a column (\<open>AppCore._renderBoard\<close>)\<close>

text \<open>
  The client holds the task list \<open>this.data.tasks\<close> and the board of the page: the
  columns in document order, each with its \<open>data-status\<close>, the \<open>data-id\<close>s of the
  cards in its body, and the number shown by its count label. The summary widget shows
  the four widths and the legend counts.
\<close>

record client_task =
  c_id :: string
  c_status :: string

record column =
  data_status :: string
  column_body :: "string list"
  count_text :: nat

record client =
  data_tasks :: "client_task list"
  board :: "column list"
  widget :: widths
  legend :: count

text \<open>\<open>fetch\<close> rejects on a network failure only; an answer of any status resolves.\<close>

datatype fetch_result = Rejected | Resolved nat

record http_request =
  rq_method :: string
  rq_url :: string
  rq_body :: "(string \<times> string) list"

text \<open>\<open>task.status = v\<close> on the task that \<open>find\<close> returned: the first with that id.\<close>

fun set_status :: "string \<Rightarrow> string \<Rightarrow> client_task list \<Rightarrow> client_task list" where
  "set_status i v [] = []"
| "set_status i v (t # ts) =
     (if c_id t = i then t\<lparr>c_status := v\<rparr> # ts else t # set_status i v ts)"

text \<open>
  \<open>target.appendChild(cardEl)\<close> for the first card with the given id, when there is
  one: the card leaves the body it is in and becomes the last card of the target body.
\<close>

fun detach :: "string \<Rightarrow> column list \<Rightarrow> column list" where
  "detach i [] = []"
| "detach i (c # cs) =
     (if i \<in> set (column_body c) then c\<lparr>column_body := remove1 i (column_body c)\<rparr> # cs
      else c # detach i cs)"

definition has_card :: "string \<Rightarrow> column list \<Rightarrow> bool" where
  "has_card i cols = (i \<in> set (concat (map column_body cols)))"

definition appendChild :: "nat \<Rightarrow> string \<Rightarrow> column list \<Rightarrow> column list" where
  "appendChild ci i cols =
     (if has_card i cols \<and> ci < length cols
      then (let cols' = detach i cols
            in cols'[ci := (cols' ! ci)\<lparr>column_body := column_body (cols' ! ci) @ [i]\<rparr>])
      else cols)"

text \<open>\<open>board.querySelector('.kanban-column[data-status="prev"] .column-body')\<close>: the
  index of the first column with that status.\<close>

fun first_column :: "string \<Rightarrow> column list \<Rightarrow> nat option" where
  "first_column st [] = None"
| "first_column st (c # cs) =
     (if data_status c = st then Some 0 else map_option Suc (first_column st cs))"

definition updateColumnCounts :: "column list \<Rightarrow> column list" where
  "updateColumnCounts cols = map (\<lambda>c. c\<lparr>count_text := length (column_body c)\<rparr>) cols"

text \<open>With the board on the page the widget counts the cards of the columns.\<close>

definition cards_in :: "string \<Rightarrow> column list \<Rightarrow> nat" where
  "cards_in st cols = length (concat (map column_body (filter (\<lambda>c. data_status c = st) cols)))"

definition dom_count :: "column list \<Rightarrow> count" where
  "dom_count cols =
     \<lparr>backlog_n = cards_in ''backlog'' cols,
      progress_n = cards_in ''in-progress'' cols,
      review_n = cards_in ''review'' cols,
      done_n = cards_in ''done'' cols\<rparr>"

definition updateTasksStatusWidget :: "client \<Rightarrow> client" where
  "updateTasksStatusWidget cl =
     cl\<lparr>widget := segment_widths (dom_count (board cl)), legend := dom_count (board cl)\<rparr>"

text \<open>
  The \<open>drop\<close> listener of the column at index \<open>ci\<close>, for the dragged id \<open>i\<close>, up to
  the \<open>await\<close>: nothing when no task has the id or the task is already in that column;
  otherwise the state after the optimistic change, the captured \<open>prev\<close>, and the request
  it sends.
\<close>

definition drop_begin :: "nat \<Rightarrow> string \<Rightarrow> client \<Rightarrow> (client \<times> string \<times> http_request) option" where
  "drop_begin ci i cl =
     (if ci < length (board cl)
      then (let status = data_status (board cl ! ci)
            in case find (\<lambda>t. c_id t = i) (data_tasks cl) of
                 None \<Rightarrow> None
               | Some task \<Rightarrow>
                   if c_status task = status then None
                   else (let prev = c_status task;
                             cl1 = cl\<lparr>data_tasks := set_status i status (data_tasks cl)\<rparr>;
                             cl2 = cl1\<lparr>board := appendChild ci i (board cl1)\<rparr>;
                             cl3 = cl2\<lparr>board := updateColumnCounts (board cl2)\<rparr>;
                             cl4 = updateTasksStatusWidget cl3
                         in Some (cl4, prev,
                              \<lparr>rq_method = ''PATCH'', rq_url = ''/api/tasks/'' @ i,
                               rq_body = [(''status'', status)]\<rparr>)))
      else None)"

text \<open>After the \<open>await\<close>: the \<open>catch\<close> block runs when \<open>fetch\<close> rejected, and nothing
  runs when it resolved; the response is not read.\<close>

definition drop_end :: "string \<Rightarrow> string \<Rightarrow> fetch_result \<Rightarrow> client \<Rightarrow> client" where
  "drop_end i prev res cl =
     (case res of
        Resolved code \<Rightarrow> cl
      | Rejected \<Rightarrow>
          (let cl1 = cl\<lparr>data_tasks := set_status i prev (data_tasks cl)\<rparr>;
               cl2 = (case first_column prev (board cl1) of
                        None \<Rightarrow> cl1
                      | Some pc \<Rightarrow> cl1\<lparr>board := appendChild pc i (board cl1)\<rparr>);
               cl3 = cl2\<lparr>board := updateColumnCounts (board cl2)\<rparr>
           in updateTasksStatusWidget cl3))"

definition on_drop :: "nat \<Rightarrow> string \<Rightarrow> fetch_result \<Rightarrow> client \<Rightarrow> client \<times> http_request list" where
  "on_drop ci i res cl =
     (case drop_begin ci i cl of
        None \<Rightarrow> (cl, [])
      | Some (cl', prev, rq) \<Rightarrow> (drop_end i prev res cl', [rq]))"

section \<open>Theorems\<close>

subsection \<open>Status summary widget\<close>

text \<open>
  Rounding a share to whole percentage points, in integer arithmetic: the quotient
  \<open>(s/total)*100\<close> plus one half is \<open>(200 s + total) / (2 total)\<close>.
\<close>

lemma Math_round_pct:
  assumes "0 < t"
  shows "Math_round ((of_nat s / of_nat t) * 100) = (200 * int s + int t) div (2 * int t)"
proof -
  have "(of_nat s / of_nat t) * 100 + 1 / 2
          = (of_int (200 * int s + int t) :: rat) / of_int (2 * int t)"
    using assms by (simp add: field_simps)
  then show ?thesis
    unfolding Math_round_def by (simp only: floor_divide_of_int_eq)
qed

lemma round_w_pct:
  "round_w (pct c s) = (200 * int s + int (total_c c)) div (2 * int (total_c c))"
proof -
  have t: "0 < total_c c" by (simp add: total_c_def)
  have "0 \<le> (200 * int s + int (total_c c)) div (2 * int (total_c c))"
    using t by (simp add: pos_imp_zdiv_nonneg_iff)
  then show ?thesis
    unfolding round_w_def pct_def Math_round_pct [OF t] by simp
qed

text \<open>With no card at all, the done segment alone is 100.\<close>

lemma segment_widths_all_zero:
  "segment_widths \<lparr>backlog_n = 0, progress_n = 0, review_n = 0, done_n = 0\<rparr>
     = \<lparr>rb = 0, rp = 0, rr = 0, rd = 100\<rparr>"
  by (simp add: segment_widths_def round_w_pct total_c_def Let_def)

text \<open>
  The widths sum to 100 except when the clamp of the done width at 0 is active: then the
  done width is 0 and the other three exceed 100.
\<close>

lemma segment_widths_sum_unclamped:
  assumes "widths_sum (segment_widths c) \<noteq> 100"
  shows "rd (segment_widths c) = 0 \<and> 100 < widths_sum (segment_widths c)"
proof -
  have nn: "0 \<le> round_w v" for v by (simp add: round_w_def)
  show ?thesis
    using assms nn [of "pct c (backlog_n c)"] nn [of "pct c (progress_n c)"]
      nn [of "pct c (review_n c)"] nn [of "pct c (done_n c)"]
    by (auto simp: segment_widths_def widths_sum_def Let_def split: if_splits)
qed

text \<open>
  C3. The claim: for every four non-negative counts the four widths sum to exactly 100.
  The code clamps the corrected done width at 0, so when the done column is empty and the
  other three widths round up to more than 100, nothing absorbs the excess: for the
  counts 1, 1, 4, 0 the widths are 17, 17, 67, 0 and sum to 101.
\<close>

theorem segment_widths_1_1_4_0:
  "segment_widths \<lparr>backlog_n = 1, progress_n = 1, review_n = 4, done_n = 0\<rparr>
     = \<lparr>rb = 17, rp = 17, rr = 67, rd = 0\<rparr>
   \<and> widths_sum (segment_widths \<lparr>backlog_n = 1, progress_n = 1, review_n = 4, done_n = 0\<rparr>) = 101"
  by (simp add: segment_widths_def widths_sum_def round_w_pct total_c_def Let_def)

subsection \<open>Session resolution and the two guards\<close>

lemma getSession_None_iff:
  "getSession now db tok = Inr None \<longleftrightarrow>
     tok = [] \<or>
     (\<exists>d. db = Some d \<and>
        (find (\<lambda>s. token s = tok) (sessions d) = None \<or>
         (\<exists>s. find (\<lambda>s. token s = tok) (sessions d) = Some s \<and>
              expiresAt s \<noteq> 0 \<and> expiresAt s < now)))"
  by (auto simp: getSession_def sessions_findOne_def split: option.splits)

text \<open>
  C6, as the code has it. Resolution gives none exactly when the token is empty, or the
  store is reachable and either holds no session with that token or holds one whose
  \<open>expiresAt\<close> is non-zero and strictly before \<open>now\<close>. A session whose
  \<open>expiresAt\<close> equals \<open>now\<close> is still resolved.
\<close>

theorem getSession_resolution:
  "(getSession now db tok = Inr None \<longleftrightarrow>
     tok = [] \<or>
     (\<exists>d. db = Some d \<and>
        (find (\<lambda>s. token s = tok) (sessions d) = None \<or>
         (\<exists>s. find (\<lambda>s. token s = tok) (sessions d) = Some s \<and>
              expiresAt s \<noteq> 0 \<and> expiresAt s < now))))
   \<and> (tok \<noteq> [] \<and> find (\<lambda>s. token s = tok) (sessions d') = Some s' \<and> expiresAt s' = now
        \<longrightarrow> getSession now (Some d') tok = Inr (Some s'))"
proof (intro conjI impI)
  show "getSession now db tok = Inr None \<longleftrightarrow>
     tok = [] \<or>
     (\<exists>d. db = Some d \<and>
        (find (\<lambda>s. token s = tok) (sessions d) = None \<or>
         (\<exists>s. find (\<lambda>s. token s = tok) (sessions d) = Some s \<and>
              expiresAt s \<noteq> 0 \<and> expiresAt s < now)))"
    by (rule getSession_None_iff)
next
  assume "tok \<noteq> [] \<and> find (\<lambda>s. token s = tok) (sessions d') = Some s' \<and> expiresAt s' = now"
  then show "getSession now (Some d') tok = Inr (Some s')"
    by (simp add: getSession_def sessions_findOne_def)
qed

theorem getSession_resolution_witness:
  "getSession 1000
     (Some \<lparr>sessions = [\<lparr>token = ''t'', userId = 1, createdAt = 0, expiresAt = 1000\<rparr>],
            tasks = []\<rparr>) ''t''
     = Inr (Some \<lparr>token = ''t'', userId = 1, createdAt = 0, expiresAt = 1000\<rparr>)
   \<and> getSession 1001
     (Some \<lparr>sessions = [\<lparr>token = ''t'', userId = 1, createdAt = 0, expiresAt = 1000\<rparr>],
            tasks = []\<rparr>) ''t''
     = Inr None"
  using getSession_resolution [of 1000
      "Some \<lparr>sessions = [\<lparr>token = ''t'', userId = 1, createdAt = 0, expiresAt = 1000\<rparr>],
             tasks = []\<rparr>" "''t''"
      "\<lparr>sessions = [\<lparr>token = ''t'', userId = 1, createdAt = 0, expiresAt = 1000\<rparr>],
        tasks = []\<rparr>"
      "\<lparr>token = ''t'', userId = 1, createdAt = 0, expiresAt = 1000\<rparr>"]
    getSession_resolution [of 1001
      "Some \<lparr>sessions = [\<lparr>token = ''t'', userId = 1, createdAt = 0, expiresAt = 1000\<rparr>],
             tasks = []\<rparr>" "''t''"]
  by simp

text \<open>
  C6 as stated fails at the instant of expiry: with \<open>expiresAt = now = 1000\<close> the
  session is resolved, not treated as absent.
\<close>

theorem getSession_at_expiry_counterexample:
  "getSession 1000
     (Some \<lparr>sessions = [\<lparr>token = ''t'', userId = 1, createdAt = 0, expiresAt = 1000\<rparr>],
            tasks = []\<rparr>) ''t''
     = Inr (Some \<lparr>token = ''t'', userId = 1, createdAt = 0, expiresAt = 1000\<rparr>)
   \<and> expiresAt \<lparr>token = ''t'', userId = 1, createdAt = 0, expiresAt = 1000\<rparr> \<le> 1000"
  by (simp add: getSession_def sessions_findOne_def)

text \<open>
  C2. The claim: the page guard resolves a token as the API guard does, so a request whose
  session has expired is redirected to the login page. The page guard and the page routes
  look the session up without reading \<open>expiresAt\<close>: with a session expired at 1000 and
  the clock at 2000, the request for \<open>/index.html\<close> is served the page, while
  \<open>authRequired\<close> answers the same bearer token with 401.
\<close>

theorem expired_session_page_served:
  "serve_page [''/index.html'']
     (Some \<lparr>sessions = [\<lparr>token = ''t'', userId = 1, createdAt = 0, expiresAt = 1000\<rparr>],
            tasks = []\<rparr>)
     \<lparr>req_method = ''GET'', path = ''/index.html'', authorization = Some ''Bearer t'',
      cookie = None\<rparr>
     = SendFile ''index.html''
   \<and> page_route
     (Some \<lparr>sessions = [\<lparr>token = ''t'', userId = 1, createdAt = 0, expiresAt = 1000\<rparr>],
            tasks = []\<rparr>)
     \<lparr>req_method = ''GET'', path = ''/index.html'', authorization = Some ''Bearer t'',
      cookie = None\<rparr>
     = SendFile ''index.html''
   \<and> authRequired 2000
     (Some \<lparr>sessions = [\<lparr>token = ''t'', userId = 1, createdAt = 0, expiresAt = 1000\<rparr>],
            tasks = []\<rparr>)
     \<lparr>req_method = ''GET'', path = ''/index.html'', authorization = Some ''Bearer t'',
      cookie = None\<rparr>
     = Inl (Json 401 (Error ''Unauthorized''))"
  by code_simp

text \<open>
  C10. When the guard performs the lookup (an HTML path outside the allow-list, a
  non-empty token) and the lookup throws, the guard forwards the request; if the path
  names a file of the static directory, that page is served.
\<close>

theorem html_guard_fails_open:
  assumes "isHtml req" and "path req \<notin> set allowed" and "request_token req \<noteq> []"
    and "sessions_findOne db (request_token req) = Inl e"
  shows "html_guard db req = Next
    \<and> (path req \<in> set files \<longrightarrow> serve_page files db req = SendFile (drop 1 (path req)))"
  using assms by (simp add: html_guard_def serve_page_def isHtml_def Let_def)

theorem html_guard_fails_open_witness:
  "html_guard None
     \<lparr>req_method = ''GET'', path = ''/tasks.html'', authorization = None,
      cookie = Some ''theme=dark; token=guess''\<rparr> = Next
   \<and> serve_page [''/index.html'', ''/tasks.html''] None
     \<lparr>req_method = ''GET'', path = ''/tasks.html'', authorization = None,
      cookie = Some ''theme=dark; token=guess''\<rparr> = SendFile ''tasks.html''"
proof -
  let ?req = "\<lparr>req_method = ''GET'', path = ''/tasks.html'', authorization = None,
      cookie = Some ''theme=dark; token=guess''\<rparr>"
  have h1: "isHtml ?req" by code_simp
  have h2: "path ?req \<notin> set allowed" by code_simp
  have h3: "request_token ?req \<noteq> []" by code_simp
  have h4: "sessions_findOne None (request_token ?req) = Inl MongoError"
    by (simp add: sessions_findOne_def)
  have h5: "path ?req \<in> set [''/index.html'', ''/tasks.html'']" by simp
  show ?thesis
    using html_guard_fails_open [OF h1 h2 h3 h4, of "[''/index.html'', ''/tasks.html'']"] h5
    by simp
qed

subsection \<open>Credential store\<close>

lemma hex_value_hex_digit: "n < 16 \<Longrightarrow> hex_value (hex_digit n) = Some n"
proof -
  assume "n < 16"
  then have "n \<in> set [0..<16]" by simp
  then show ?thesis
    unfolding upt_conv_Cons_Cons
    by (simp add: upt_rec hex_value_def hex_digit_def; elim disjE; simp)
qed

lemma hex_digit_not_colon: "n < 16 \<Longrightarrow> hex_digit n \<noteq> CHR '':''"
proof -
  assume "n < 16"
  then have "n \<in> set [0..<16]" by simp
  then show ?thesis
    by (simp add: upt_rec hex_digit_def; elim disjE; simp)
qed

lemma byte_hi_lt: "unat (b :: byte) div 16 < 16"
proof -
  have "unat b < 256" using unsigned_less [of b] by simp
  then show ?thesis by simp
qed

lemma Buffer_from_hex_toString_hex: "Buffer_from_hex (toString_hex bs) = bs"
proof (induction bs)
  case Nil
  show ?case by (simp add: toString_hex_def)
next
  case (Cons b bs)
  have "of_nat (16 * (unat b div 16) + unat b mod 16) = b" by simp
  with Cons show ?case
    by (simp add: toString_hex_def hex_value_hex_digit byte_hi_lt)
qed

lemma colon_notin_toString_hex: "CHR '':'' \<notin> set (toString_hex bs)"
proof (induction bs)
  case Nil
  show ?case by (simp add: toString_hex_def)
next
  case (Cons b bs)
  have "hex_digit (unat b div 16) \<noteq> CHR '':''" "hex_digit (unat b mod 16) \<noteq> CHR '':''"
    by (simp_all add: hex_digit_not_colon byte_hi_lt)
  with Cons show ?case
    by (auto simp: toString_hex_def)
qed

lemma split_no_sep: "sep \<notin> set s \<Longrightarrow> split sep s = [s]"
  by (induction s) auto

lemma split_append: "sep \<notin> set a \<Longrightarrow> split sep (a @ sep # b) = a # split sep b"
  by (induction a) auto

lemma toString_hex_Nil_iff: "toString_hex bs = [] \<longleftrightarrow> bs = []"
  by (cases bs) (simp_all add: toString_hex_def)

text \<open>
  C9. Verifying a password against the stored form made from it by \<open>hashPassword\<close>
  gives true, whatever the random salt and the key derivation: the stored form splits at
  its only colon into the salt and the hash, both non-empty, and the recomputed digest is
  the stored one.
\<close>

theorem verifyPassword_hashPassword:
  "verifyPassword kdf password (Some (hashPassword rnd kdf password)) = Inr True"
proof -
  let ?salt = "toString_hex (randomBytes rnd 16)"
  let ?hash = "toString_hex (scryptSync kdf password ?salt 64)"
  have parts: "split CHR '':'' (hashPassword rnd kdf password) = [?salt, ?hash]"
    by (simp add: hashPassword_def Let_def split_append split_no_sep colon_notin_toString_hex)
  have salt: "?salt \<noteq> []"
    by (simp add: toString_hex_Nil_iff randomBytes_def)
  have hash: "?hash \<noteq> []"
    by (simp add: toString_hex_Nil_iff scryptSync_def)
  show ?thesis
    using salt hash
    by (simp add: verifyPassword_def parts timingSafeEqual_def Let_def)
qed

text \<open>
  C5. The claim: on a malformed stored form \<open>verifyPassword\<close> returns false and never
  throws. The guard \<open>if (!salt || !hash) return false\<close> covers a missing salt or hash
  only. For the stored form \<open>ab:cd\<close> the hash decodes to one byte, the recomputed
  digest has 64, and \<open>timingSafeEqual\<close> throws a RangeError.
\<close>

theorem verifyPassword_short_hash_throws:
  "verifyPassword kdf password (Some ''ab:cd'') = Inl RangeError"
proof -
  have parts: "split CHR '':'' ''ab:cd'' = [''ab'', ''cd'']" by simp
  have len: "length (Buffer_from_hex (toString_hex (scryptSync kdf password ''ab'' 64))) = 64"
    by (simp add: Buffer_from_hex_toString_hex scryptSync_def)
  have short: "length (Buffer_from_hex ''cd'') = 1"
    by (simp add: hex_value_def)
  show ?thesis
    using len short
    by (simp add: verifyPassword_def parts timingSafeEqual_def Let_def del: Buffer_from_hex.simps)
qed


lemma verifyPassword_missing_hash: "verifyPassword kdf password (Some ''ab'') = Inr False"
  by (simp add: verifyPassword_def)

subsection \<open>Task handlers: what the two collection operations do\<close>

lemma findOneAndUpdate_no_match:
  "\<forall>x\<in>set ts. \<not> flt x \<Longrightarrow> findOneAndUpdate flt upd ts = (None, ts)"
  by (induction ts) auto

lemma findOneAndUpdate_fst:
  "fst (findOneAndUpdate flt upd ts) = map_option upd (find flt ts)"
  by (induction ts) (auto split: prod.splits)

lemma findOneAndUpdate_keeps:
  "x \<in> set ts \<Longrightarrow> \<not> flt x \<Longrightarrow> x \<in> set (snd (findOneAndUpdate flt upd ts))"
  by (induction ts) (auto split: prod.splits)

lemma findOneAndUpdate_filter:
  assumes "\<And>x. flt x \<Longrightarrow> \<not> q x" and "\<And>x. flt x \<Longrightarrow> \<not> q (upd x)"
  shows "filter q (snd (findOneAndUpdate flt upd ts)) = filter q ts"
  using assms by (induction ts) (auto split: prod.splits)

lemma findOneAndUpdate_result_in:
  "fst (findOneAndUpdate flt upd ts) = Some t' \<Longrightarrow> t' \<in> set (snd (findOneAndUpdate flt upd ts))"
  by (induction ts) (auto split: prod.splits if_splits)

lemma findOneAndUpdate_find_again:
  assumes "\<And>x. flt (upd x) = flt x"
  shows "find flt (snd (findOneAndUpdate flt upd ts)) = map_option upd (find flt ts)"
proof (induction ts)
  case Nil
  show ?case by simp
next
  case (Cons t ts)
  show ?case
  proof (cases "flt t")
    case True
    then have "flt (upd t)" by (simp only: assms)
    with True show ?thesis by simp
  next
    case False
    with Cons show ?thesis by (auto split: prod.splits)
  qed
qed

lemma deleteOne_no_match:
  "\<forall>x\<in>set ts. \<not> flt x \<Longrightarrow> deleteOne flt ts = (0, ts)"
  by (induction ts) auto

lemma deleteOne_keeps:
  "x \<in> set ts \<Longrightarrow> \<not> flt x \<Longrightarrow> x \<in> set (snd (deleteOne flt ts))"
  by (induction ts) (auto split: prod.splits)

lemma deleteOne_filter:
  assumes "\<And>x. flt x \<Longrightarrow> \<not> q x"
  shows "filter q (snd (deleteOne flt ts)) = filter q ts"
  using assms by (induction ts) (auto split: prod.splits)

lemma no_foreign_match:
  assumes "t \<in> set ts" and "task_userId t \<noteq> uid" and "distinct (map task_id ts)"
  shows "\<forall>x\<in>set ts. \<not> (task_id x = task_id t \<and> task_userId x = uid)"
proof
  fix x assume x: "x \<in> set ts"
  show "\<not> (task_id x = task_id t \<and> task_userId x = uid)"
  proof
    assume h: "task_id x = task_id t \<and> task_userId x = uid"
    from assms(3) have "inj_on task_id (set ts)" by (simp add: distinct_map)
    with x assms(1) h have "x = t" by (auto dest: inj_onD)
    with h assms(2) show False by simp
  qed
qed


text \<open>The handlers keep the \<open>_id\<close>s of the collection distinct.\<close>

lemma findOneAndUpdate_ids:
  assumes "\<And>x. task_id (upd x) = task_id x"
  shows "map task_id (snd (findOneAndUpdate flt upd ts)) = map task_id ts"
proof (induction ts)
  case Nil
  show ?case by simp
next
  case (Cons t ts)
  then show ?case by (auto simp: assms split: prod.splits)
qed

lemma deleteOne_distinct:
  "distinct (map task_id ts) \<Longrightarrow> distinct (map task_id (snd (deleteOne flt ts)))"
proof (induction ts)
  case Nil
  show ?case by simp
next
  case (Cons t ts)
  have sub: "set (snd (deleteOne flt ts)) \<subseteq> set ts" for ts
    by (induction ts) (auto split: prod.splits)
  from Cons sub [of ts] show ?case
    by (auto split: prod.splits)
qed

lemma POST_keeps_ids_distinct:
  assumes "distinct (map task_id (tasks d))"
    and "POST_api_tasks e now now_ms new_id (Some d) uid b = (r, Some d')"
  shows "distinct (map task_id (tasks d'))"
  using assms
  by (auto simp: POST_api_tasks_def Let_def tasks_insertOne_def
      split: option.splits if_splits sum.splits)

lemma PATCH_keeps_ids_distinct:
  assumes "distinct (map task_id (tasks d))"
    and "PATCH_api_tasks_id e now (Some d) uid id_param b = (r, Some d')"
  shows "distinct (map task_id (tasks d'))"
proof -
  let ?upd = "\<lambda>t. t\<lparr>task_fields := set_fields (stamp_completed e now (update_deadline e (collect_update b))) (task_fields t)\<rparr>"
  have ids: "map task_id (snd (findOneAndUpdate flt ?upd (tasks d))) = map task_id (tasks d)" for flt
    by (rule findOneAndUpdate_ids) simp
  show ?thesis
  proof (cases "ObjectId e id_param")
    case None
    with assms show ?thesis by (simp add: PATCH_api_tasks_id_def)
  next
    case (Some i)
    obtain r0 ts where res: "findOneAndUpdate (\<lambda>t. task_id t = i \<and> task_userId t = uid) ?upd (tasks d) = (r0, ts)"
      by (cases "findOneAndUpdate (\<lambda>t. task_id t = i \<and> task_userId t = uid) ?upd (tasks d)")
    from ids [of "\<lambda>t. task_id t = i \<and> task_userId t = uid"] res
    have "map task_id ts = map task_id (tasks d)" by simp
    with assms Some res show ?thesis
      by (cases r0) (auto simp: PATCH_api_tasks_id_def)
  qed
qed

lemma DELETE_keeps_ids_distinct:
  assumes "distinct (map task_id (tasks d))"
    and "DELETE_api_tasks_id e (Some d) uid id_param = (r, Some d')"
  shows "distinct (map task_id (tasks d'))"
proof (cases "ObjectId e id_param")
  case None
  with assms show ?thesis by (simp add: DELETE_api_tasks_id_def)
next
  case (Some i)
  from deleteOne_distinct [OF assms(1), of "\<lambda>t. task_id t = i \<and> task_userId t = uid"] assms Some
  show ?thesis
    by (auto simp: DELETE_api_tasks_id_def split: prod.splits if_splits)
qed

subsection \<open>Ownership\<close>

text \<open>
  C1. Let a task \<open>t\<close> of the collection be owned by \<open>A\<close>, and let \<open>B\<close> be another
  user; the \<open>_id\<close>s of the collection are distinct (its unique index). Then \<open>t\<close> is
  not in the list returned to \<open>B\<close>; whatever id and body \<open>B\<close> sends, an update or a
  delete by \<open>B\<close> leaves \<open>t\<close> and all of \<open>A\<close>'s tasks as they were; and when the
  id \<open>B\<close> sends is the id of \<open>t\<close>, the answer is 404 and the store is unchanged.
\<close>

theorem cross_user_isolation:
  assumes "A \<noteq> B" and "t \<in> set (tasks d)" and "task_userId t = A"
    and "distinct (map task_id (tasks d))"
  shows "(\<exists>ts. GET_api_tasks (Some d) B = Json 200 (Tasks ts) \<and> t \<notin> set ts)
    \<and> (\<exists>r d'. PATCH_api_tasks_id e now (Some d) B id_param b = (r, Some d')
           \<and> t \<in> set (tasks d')
           \<and> filter (\<lambda>x. task_userId x = A) (tasks d') = filter (\<lambda>x. task_userId x = A) (tasks d))
    \<and> (ObjectId e id_param = Some (task_id t) \<longrightarrow>
           PATCH_api_tasks_id e now (Some d) B id_param b = (Json 404 (Error ''Not found''), Some d))
    \<and> (\<exists>r d'. DELETE_api_tasks_id e (Some d) B id_param = (r, Some d')
           \<and> t \<in> set (tasks d')
           \<and> filter (\<lambda>x. task_userId x = A) (tasks d') = filter (\<lambda>x. task_userId x = A) (tasks d))
    \<and> (ObjectId e id_param = Some (task_id t) \<longrightarrow>
           DELETE_api_tasks_id e (Some d) B id_param = (Json 404 (Error ''Not found''), Some d))"
proof (intro conjI impI)
  show "\<exists>ts. GET_api_tasks (Some d) B = Json 200 (Tasks ts) \<and> t \<notin> set ts"
    using assms(1,3) by (simp add: GET_api_tasks_def tasks_find_sorted_def)
next
  let ?flt = "\<lambda>i x. task_id x = i \<and> task_userId x = B"
  let ?upd = "\<lambda>x. x\<lparr>task_fields := set_fields (stamp_completed e now (update_deadline e (collect_update b))) (task_fields x)\<rparr>"
  show "\<exists>r d'. PATCH_api_tasks_id e now (Some d) B id_param b = (r, Some d')
           \<and> t \<in> set (tasks d')
           \<and> filter (\<lambda>x. task_userId x = A) (tasks d') = filter (\<lambda>x. task_userId x = A) (tasks d)"
  proof (cases "ObjectId e id_param")
    case None
    then show ?thesis using assms(2) by (simp add: PATCH_api_tasks_id_def)
  next
    case (Some i)
    have nf: "\<not> ?flt i t" using assms(1,3) by simp
    have k: "t \<in> set (snd (findOneAndUpdate (?flt i) ?upd (tasks d)))"
      using assms(2) nf by (rule findOneAndUpdate_keeps)
    have f: "filter (\<lambda>x. task_userId x = A) (snd (findOneAndUpdate (?flt i) ?upd (tasks d)))
               = filter (\<lambda>x. task_userId x = A) (tasks d)"
      using assms(1) by (intro findOneAndUpdate_filter) auto
    obtain r ts where res: "findOneAndUpdate (?flt i) ?upd (tasks d) = (r, ts)"
      by (cases "findOneAndUpdate (?flt i) ?upd (tasks d)")
    show ?thesis
      using Some res k f assms(2)
      by (cases r) (simp_all add: PATCH_api_tasks_id_def)
  qed
next
  assume i: "ObjectId e id_param = Some (task_id t)"
  have "\<forall>x\<in>set (tasks d). \<not> (task_id x = task_id t \<and> task_userId x = B)"
    using assms by (intro no_foreign_match) auto
  then show "PATCH_api_tasks_id e now (Some d) B id_param b = (Json 404 (Error ''Not found''), Some d)"
    by (simp add: PATCH_api_tasks_id_def i findOneAndUpdate_no_match)
next
  let ?flt = "\<lambda>i x. task_id x = i \<and> task_userId x = B"
  show "\<exists>r d'. DELETE_api_tasks_id e (Some d) B id_param = (r, Some d')
           \<and> t \<in> set (tasks d')
           \<and> filter (\<lambda>x. task_userId x = A) (tasks d') = filter (\<lambda>x. task_userId x = A) (tasks d)"
  proof (cases "ObjectId e id_param")
    case None
    then show ?thesis using assms(2) by (simp add: DELETE_api_tasks_id_def)
  next
    case (Some i)
    have nf: "\<not> ?flt i t" using assms(1,3) by simp
    have k: "t \<in> set (snd (deleteOne (?flt i) (tasks d)))"
      using assms(2) nf by (rule deleteOne_keeps)
    have f: "filter (\<lambda>x. task_userId x = A) (snd (deleteOne (?flt i) (tasks d)))
               = filter (\<lambda>x. task_userId x = A) (tasks d)"
      using assms(1) by (intro deleteOne_filter) auto
    obtain n ts where res: "deleteOne (?flt i) (tasks d) = (n, ts)"
      by (cases "deleteOne (?flt i) (tasks d)")
    show ?thesis
      using Some res k f assms(2)
      by (simp add: DELETE_api_tasks_id_def)
  qed
next
  assume i: "ObjectId e id_param = Some (task_id t)"
  have "\<forall>x\<in>set (tasks d). \<not> (task_id x = task_id t \<and> task_userId x = B)"
    using assms by (intro no_foreign_match) auto
  then show "DELETE_api_tasks_id e (Some d) B id_param = (Json 404 (Error ''Not found''), Some d)"
    by (simp add: DELETE_api_tasks_id_def i deleteOne_no_match)
qed


theorem cross_user_isolation_witness:
  "PATCH_api_tasks_id
     \<lparr>toISOString = (\<lambda>t. ''iso''), toLocaleString_IN = (\<lambda>t. ''ist''),
      new_Date = (\<lambda>s. None), String_of = (\<lambda>v. []), ObjectId = (\<lambda>s. Some 10)\<rparr>
     5
     (Some \<lparr>sessions = [],
            tasks = [\<lparr>task_id = 10, task_userId = 1, task_fields = [(''title'', JStr ''a'')]\<rparr>,
                     \<lparr>task_id = 11, task_userId = 2, task_fields = [(''title'', JStr ''b'')]\<rparr>]\<rparr>)
     2 ''10'' [''status'' \<mapsto> JStr ''done'']
   = (Json 404 (Error ''Not found''),
      Some \<lparr>sessions = [],
            tasks = [\<lparr>task_id = 10, task_userId = 1, task_fields = [(''title'', JStr ''a'')]\<rparr>,
                     \<lparr>task_id = 11, task_userId = 2, task_fields = [(''title'', JStr ''b'')]\<rparr>]\<rparr>)
   \<and> DELETE_api_tasks_id
     \<lparr>toISOString = (\<lambda>t. ''iso''), toLocaleString_IN = (\<lambda>t. ''ist''),
      new_Date = (\<lambda>s. None), String_of = (\<lambda>v. []), ObjectId = (\<lambda>s. Some 10)\<rparr>
     (Some \<lparr>sessions = [],
            tasks = [\<lparr>task_id = 10, task_userId = 1, task_fields = [(''title'', JStr ''a'')]\<rparr>,
                     \<lparr>task_id = 11, task_userId = 2, task_fields = [(''title'', JStr ''b'')]\<rparr>]\<rparr>)
     2 ''10''
   = (Json 404 (Error ''Not found''),
      Some \<lparr>sessions = [],
            tasks = [\<lparr>task_id = 10, task_userId = 1, task_fields = [(''title'', JStr ''a'')]\<rparr>,
                     \<lparr>task_id = 11, task_userId = 2, task_fields = [(''title'', JStr ''b'')]\<rparr>]\<rparr>)"
proof -
  let ?e = "\<lparr>toISOString = (\<lambda>t. ''iso''), toLocaleString_IN = (\<lambda>t. ''ist''),
      new_Date = (\<lambda>s. None), String_of = (\<lambda>v. []), ObjectId = (\<lambda>s. Some 10)\<rparr>"
  let ?t = "\<lparr>task_id = 10, task_userId = 1, task_fields = [(''title'', JStr ''a'')]\<rparr>"
  let ?d = "\<lparr>sessions = [],
            tasks = [?t, \<lparr>task_id = 11, task_userId = 2, task_fields = [(''title'', JStr ''b'')]\<rparr>]\<rparr>"
  have h1: "(1::nat) \<noteq> 2" by simp
  have h2: "?t \<in> set (tasks ?d)" by simp
  have h3: "task_userId ?t = 1" by simp
  have h4: "distinct (map task_id (tasks ?d))" by simp
  have i: "ObjectId ?e ''10'' = Some (task_id ?t)" by simp
  note th = cross_user_isolation [OF h1 h2 h3 h4, of ?e 5 "''10''" "[''status'' \<mapsto> JStr ''done'']"]
  have p: "PATCH_api_tasks_id ?e 5 (Some ?d) 2 ''10'' [''status'' \<mapsto> JStr ''done'']
             = (Json 404 (Error ''Not found''), Some ?d)"
    using th i by blast
  have q: "DELETE_api_tasks_id ?e (Some ?d) 2 ''10'' = (Json 404 (Error ''Not found''), Some ?d)"
    using th i by blast
  from p q show ?thesis by (rule conjI)
qed


subsection \<open>Updating a task\<close>

lemma map_of_set_fields:
  "map_of (set_fields update doc) = map_of doc ++ map_of (rev update)"
proof (induction update arbitrary: doc)
  case Nil
  show ?case by (simp add: set_fields_def)
next
  case (Cons kv update)
  obtain k v where kv: "kv = (k, v)" by (cases kv)
  have "map_of (set_fields (kv # update) doc) = map_of (set_fields update (AList.update k v doc))"
    by (simp add: set_fields_def kv)
  also have "\<dots> = (map_of doc)(k \<mapsto> v) ++ map_of (rev update)"
    by (simp only: Cons.IH update_conv')
  also have "\<dots> = map_of doc ++ map_of (rev (kv # update))"
    by (simp add: kv map_add_upd_left fun_eq_iff map_add_def split: option.splits)
  finally show ?case .
qed

lemma map_of_rev_distinct:
  "distinct (map fst xs) \<Longrightarrow> map_of (rev xs) = map_of xs"
  by (rule map_of_inject_set [THEN iffD2]) (simp_all add: rev_map [symmetric])

lemma map_fst_collect:
  "map fst (concat (map (\<lambda>k. case b k of None \<Rightarrow> [] | Some v \<Rightarrow> [(k, v)]) ks))
     = filter (\<lambda>k. b k \<noteq> None) ks"
  by (induction ks) (auto split: option.splits)

lemma map_of_collect:
  "map_of (concat (map (\<lambda>k. case b k of None \<Rightarrow> [] | Some v \<Rightarrow> [(k, v)]) ks)) k
     = (if k \<in> set ks then b k else None)"
  by (induction ks) (auto split: option.splits)

lemma distinct_collect_update: "distinct (map fst (collect_update b))"
  unfolding collect_update_def map_fst_collect
  by (rule distinct_filter) (simp add: mutable_fields_def)

lemma map_of_collect_update:
  "map_of (collect_update b) k = (if k \<in> set mutable_fields then b k else None)"
  unfolding collect_update_def by (rule map_of_collect)

lemma distinct_update_deadline:
  "distinct (map fst update) \<Longrightarrow> distinct (map fst (update_deadline e update))"
  by (simp add: update_deadline_def Let_def distinct_update distinct_delete split: option.splits)

lemma map_of_update_deadline:
  "k \<noteq> ''deadline'' \<Longrightarrow> map_of (update_deadline e update) k = map_of update k"
  by (simp add: update_deadline_def Let_def update_conv' delete_conv' split: option.splits)

lemma distinct_stamp_completed:
  "distinct (map fst update) \<Longrightarrow> distinct (map fst (stamp_completed e now update))"
  by (simp add: stamp_completed_def distinct_update)

lemma map_of_stamp_completed:
  "map_of (stamp_completed e now update) =
     (if map_of update ''status'' = Some (JStr ''done'')
      then (map_of update)(''completedAt'' \<mapsto> JStr (toISOString e now),
                           ''completedAtIST'' \<mapsto> JStr (toLocaleString_IN e now))
      else map_of update)"
  by (simp add: stamp_completed_def update_conv')

lemma map_of_patched_fields:
  "map_of (set_fields (stamp_completed e now (update_deadline e (collect_update b))) doc)
     = map_of doc ++ map_of (stamp_completed e now (update_deadline e (collect_update b)))"
  by (simp add: map_of_set_fields map_of_rev_distinct distinct_stamp_completed
        distinct_update_deadline distinct_collect_update)

lemma status_of_update:
  "map_of (update_deadline e (collect_update b)) ''status'' = b ''status''"
  by (simp add: map_of_update_deadline map_of_collect_update mutable_fields_def)

lemma completed_not_in_update:
  "map_of (update_deadline e (collect_update b)) ''completedAt'' = None"
  "map_of (update_deadline e (collect_update b)) ''completedAtIST'' = None"
  by (simp_all add: map_of_update_deadline map_of_collect_update mutable_fields_def)

lemma patched_completedAt_done:
  assumes "b ''status'' = Some (JStr ''done'')"
  shows "map_of (set_fields (stamp_completed e now (update_deadline e (collect_update b))) doc) ''completedAt''
           = Some (JStr (toISOString e now))"
    and "map_of (set_fields (stamp_completed e now (update_deadline e (collect_update b))) doc) ''completedAtIST''
           = Some (JStr (toLocaleString_IN e now))"
  using assms
  by (simp_all add: map_of_patched_fields map_of_stamp_completed status_of_update)

lemma patched_completedAt_other:
  assumes "b ''status'' \<noteq> Some (JStr ''done'')"
  shows "map_of (set_fields (stamp_completed e now (update_deadline e (collect_update b))) doc) ''completedAt''
           = map_of doc ''completedAt''"
    and "map_of (set_fields (stamp_completed e now (update_deadline e (collect_update b))) doc) ''completedAtIST''
           = map_of doc ''completedAtIST''"
  using assms
  by (simp_all add: map_of_patched_fields map_of_stamp_completed status_of_update
        completed_not_in_update map_add_def)


lemma PATCH_found:
  assumes "ObjectId e id_param = Some i"
    and "find (\<lambda>x. task_id x = i \<and> task_userId x = uid) (tasks d) = Some t"
  shows "\<exists>d'. PATCH_api_tasks_id e now (Some d) uid id_param b
            = (Json 200 (Task (t\<lparr>task_fields :=
                 set_fields (stamp_completed e now (update_deadline e (collect_update b)))
                   (task_fields t)\<rparr>)), Some d')
          \<and> find (\<lambda>x. task_id x = i \<and> task_userId x = uid) (tasks d')
              = Some (t\<lparr>task_fields :=
                 set_fields (stamp_completed e now (update_deadline e (collect_update b)))
                   (task_fields t)\<rparr>)"
proof -
  let ?flt = "\<lambda>x. task_id x = i \<and> task_userId x = uid"
  let ?upd = "\<lambda>x. x\<lparr>task_fields :=
                 set_fields (stamp_completed e now (update_deadline e (collect_update b)))
                   (task_fields x)\<rparr>"
  obtain r ts where res: "findOneAndUpdate ?flt ?upd (tasks d) = (r, ts)"
    by (cases "findOneAndUpdate ?flt ?upd (tasks d)")
  have r: "r = Some (?upd t)"
    using findOneAndUpdate_fst [of ?flt ?upd "tasks d"] res assms(2) by simp
  have "find ?flt (snd (findOneAndUpdate ?flt ?upd (tasks d))) = map_option ?upd (find ?flt (tasks d))"
    by (rule findOneAndUpdate_find_again) simp
  then have again: "find ?flt ts = Some (?upd t)"
    using res assms(2) by simp
  have "PATCH_api_tasks_id e now (Some d) uid id_param b
          = (Json 200 (Task (?upd t)), Some (d\<lparr>tasks := ts\<rparr>))"
    by (simp add: PATCH_api_tasks_id_def assms(1) res r)
  with again show ?thesis by simp
qed

text \<open>
  C4. For a task the caller owns, found under the id of the request: an update whose
  body sets \<open>status\<close> to \<open>done\<close> answers 200 with \<open>completedAt\<close> (and its display
  form) stamped from the time of the request, whatever the task's status was before; an
  update whose body does not set \<open>status\<close> to \<open>done\<close> leaves both fields as they
  were; and after the first kind of update at time \<open>now\<close>, the second kind at a later
  time \<open>now2\<close> still returns the stamp of \<open>now\<close>.
\<close>

theorem completedAt_stamped_and_kept:
  assumes "ObjectId e id_param = Some i"
    and "find (\<lambda>x. task_id x = i \<and> task_userId x = uid) (tasks d) = Some t"
  shows "(b ''status'' = Some (JStr ''done'') \<longrightarrow>
           (\<exists>t' d'. PATCH_api_tasks_id e now (Some d) uid id_param b = (Json 200 (Task t'), Some d')
              \<and> find (\<lambda>x. task_id x = i \<and> task_userId x = uid) (tasks d') = Some t'
              \<and> map_of (task_fields t') ''completedAt'' = Some (JStr (toISOString e now))
              \<and> map_of (task_fields t') ''completedAtIST'' = Some (JStr (toLocaleString_IN e now))))
    \<and> (b ''status'' \<noteq> Some (JStr ''done'') \<longrightarrow>
           (\<exists>t' d'. PATCH_api_tasks_id e now (Some d) uid id_param b = (Json 200 (Task t'), Some d')
              \<and> find (\<lambda>x. task_id x = i \<and> task_userId x = uid) (tasks d') = Some t'
              \<and> map_of (task_fields t') ''completedAt'' = map_of (task_fields t) ''completedAt''
              \<and> map_of (task_fields t') ''completedAtIST'' = map_of (task_fields t) ''completedAtIST''))
    \<and> (b ''status'' = Some (JStr ''done'') \<and> b2 ''status'' \<noteq> Some (JStr ''done'') \<longrightarrow>
           (\<exists>r1 db1 t2 db2.
              PATCH_api_tasks_id e now (Some d) uid id_param b = (r1, db1)
              \<and> PATCH_api_tasks_id e now2 db1 uid id_param b2 = (Json 200 (Task t2), db2)
              \<and> map_of (task_fields t2) ''completedAt'' = Some (JStr (toISOString e now))
              \<and> map_of (task_fields t2) ''completedAtIST'' = Some (JStr (toLocaleString_IN e now))))"
proof (intro conjI impI)
  assume dn: "b ''status'' = Some (JStr ''done'')"
  from PATCH_found [OF assms, of now b] dn patched_completedAt_done [of b e now "task_fields t"]
  show "\<exists>t' d'. PATCH_api_tasks_id e now (Some d) uid id_param b = (Json 200 (Task t'), Some d')
              \<and> find (\<lambda>x. task_id x = i \<and> task_userId x = uid) (tasks d') = Some t'
              \<and> map_of (task_fields t') ''completedAt'' = Some (JStr (toISOString e now))
              \<and> map_of (task_fields t') ''completedAtIST'' = Some (JStr (toLocaleString_IN e now))"
    by fastforce
next
  assume other: "b ''status'' \<noteq> Some (JStr ''done'')"
  from PATCH_found [OF assms, of now b] other patched_completedAt_other [of b e now "task_fields t"]
  show "\<exists>t' d'. PATCH_api_tasks_id e now (Some d) uid id_param b = (Json 200 (Task t'), Some d')
              \<and> find (\<lambda>x. task_id x = i \<and> task_userId x = uid) (tasks d') = Some t'
              \<and> map_of (task_fields t') ''completedAt'' = map_of (task_fields t) ''completedAt''
              \<and> map_of (task_fields t') ''completedAtIST'' = map_of (task_fields t) ''completedAtIST''"
    by fastforce
next
  assume seq: "b ''status'' = Some (JStr ''done'') \<and> b2 ''status'' \<noteq> Some (JStr ''done'')"
  let ?t1 = "t\<lparr>task_fields :=
                 set_fields (stamp_completed e now (update_deadline e (collect_update b)))
                   (task_fields t)\<rparr>"
  from PATCH_found [OF assms, of now b]
  obtain d1 where first: "PATCH_api_tasks_id e now (Some d) uid id_param b
            = (Json 200 (Task ?t1), Some d1)"
    and found1: "find (\<lambda>x. task_id x = i \<and> task_userId x = uid) (tasks d1) = Some ?t1"
    by blast
  let ?t2 = "?t1\<lparr>task_fields :=
                 set_fields (stamp_completed e now2 (update_deadline e (collect_update b2)))
                   (task_fields ?t1)\<rparr>"
  from PATCH_found [OF assms(1) found1, of now2 b2]
  obtain d2 where second: "PATCH_api_tasks_id e now2 (Some d1) uid id_param b2
            = (Json 200 (Task ?t2), Some d2)"
    by blast
  have c1: "map_of (task_fields ?t2) ''completedAt'' = Some (JStr (toISOString e now))"
    using seq patched_completedAt_done(1) [of b e now "task_fields t"]
      patched_completedAt_other(1) [of b2 e now2 "task_fields ?t1"] by simp
  have c2: "map_of (task_fields ?t2) ''completedAtIST'' = Some (JStr (toLocaleString_IN e now))"
    using seq patched_completedAt_done(2) [of b e now "task_fields t"]
      patched_completedAt_other(2) [of b2 e now2 "task_fields ?t1"] by simp
  show "\<exists>r1 db1 t2 db2.
              PATCH_api_tasks_id e now (Some d) uid id_param b = (r1, db1)
              \<and> PATCH_api_tasks_id e now2 db1 uid id_param b2 = (Json 200 (Task t2), db2)
              \<and> map_of (task_fields t2) ''completedAt'' = Some (JStr (toISOString e now))
              \<and> map_of (task_fields t2) ''completedAtIST'' = Some (JStr (toLocaleString_IN e now))"
    using first second c1 c2 by blast
qed


theorem completedAt_stamped_and_kept_witness:
  "(\<exists>t' d'. PATCH_api_tasks_id
       \<lparr>toISOString = (\<lambda>t. if t = 5 then ''T5'' else ''T''), toLocaleString_IN = (\<lambda>t. ''ist''),
        new_Date = (\<lambda>s. None), String_of = (\<lambda>v. []), ObjectId = (\<lambda>s. Some 10)\<rparr>
       5
       (Some \<lparr>sessions = [],
              tasks = [\<lparr>task_id = 10, task_userId = 1,
                        task_fields = [(''status'', JStr ''done''), (''completedAt'', JStr ''old'')]\<rparr>]\<rparr>)
       1 ''10'' [''status'' \<mapsto> JStr ''done'']
       = (Json 200 (Task t'), Some d')
     \<and> map_of (task_fields t') ''completedAt'' = Some (JStr ''T5''))
   \<and> (\<exists>t' d'. PATCH_api_tasks_id
       \<lparr>toISOString = (\<lambda>t. if t = 5 then ''T5'' else ''T''), toLocaleString_IN = (\<lambda>t. ''ist''),
        new_Date = (\<lambda>s. None), String_of = (\<lambda>v. []), ObjectId = (\<lambda>s. Some 10)\<rparr>
       5
       (Some \<lparr>sessions = [],
              tasks = [\<lparr>task_id = 10, task_userId = 1,
                        task_fields = [(''status'', JStr ''done''), (''completedAt'', JStr ''old'')]\<rparr>]\<rparr>)
       1 ''10'' [''status'' \<mapsto> JStr ''backlog'']
       = (Json 200 (Task t'), Some d')
     \<and> map_of (task_fields t') ''completedAt'' = Some (JStr ''old''))"
proof -
  let ?e = "\<lparr>toISOString = (\<lambda>t. if t = 5 then ''T5'' else ''T''), toLocaleString_IN = (\<lambda>t. ''ist''),
        new_Date = (\<lambda>s. None), String_of = (\<lambda>v. []), ObjectId = (\<lambda>s. Some 10)\<rparr>"
  let ?t = "\<lparr>task_id = 10, task_userId = 1,
             task_fields = [(''status'', JStr ''done''), (''completedAt'', JStr ''old'')]\<rparr>"
  let ?d = "\<lparr>sessions = [], tasks = [?t]\<rparr>"
  have h1: "ObjectId ?e ''10'' = Some 10" by simp
  have h2: "find (\<lambda>x. task_id x = 10 \<and> task_userId x = 1) (tasks ?d) = Some ?t" by simp
  have d1: "[''status'' \<mapsto> JStr ''done''] ''status'' = Some (JStr ''done'')" by simp
  have d2: "[''status'' \<mapsto> JStr ''backlog''] ''status'' \<noteq> Some (JStr ''done'')" by simp
  from completedAt_stamped_and_kept [OF h1 h2, of "[''status'' \<mapsto> JStr ''done'']" 5] d1
  have a: "\<exists>t' d'. PATCH_api_tasks_id ?e 5 (Some ?d) 1 ''10'' [''status'' \<mapsto> JStr ''done'']
             = (Json 200 (Task t'), Some d')
           \<and> map_of (task_fields t') ''completedAt'' = Some (JStr ''T5'')"
    by fastforce
  from completedAt_stamped_and_kept [OF h1 h2, of "[''status'' \<mapsto> JStr ''backlog'']" 5] d2
  have b: "\<exists>t' d'. PATCH_api_tasks_id ?e 5 (Some ?d) 1 ''10'' [''status'' \<mapsto> JStr ''backlog'']
             = (Json 200 (Task t'), Some d')
           \<and> map_of (task_fields t') ''completedAt'' = Some (JStr ''old'')"
    by fastforce
  from a b show ?thesis by (rule conjI)
qed

subsection \<open>Creating a task\<close>

lemma POST_ignores_field:
  assumes "k \<notin> {''title'', ''priority'', ''status'', ''assignee'', ''starred'', ''deadline''}"
  shows "POST_api_tasks e now now_ms new_id db uid (b(k := v)) = POST_api_tasks e now now_ms new_id db uid b"
proof -
  have f: "(b(k := v)) ''title'' = b ''title''" "(b(k := v)) ''priority'' = b ''priority''"
    "(b(k := v)) ''status'' = b ''status''" "(b(k := v)) ''assignee'' = b ''assignee''"
    "(b(k := v)) ''starred'' = b ''starred''" "(b(k := v)) ''deadline'' = b ''deadline''"
    using assms by auto
  show ?thesis
    unfolding POST_api_tasks_def by (simp only: f)
qed

text \<open>
  C8. A create request whose \<open>title\<close> is absent, empty or not a string is answered 400
  and the store is unchanged. With a non-empty string title, the store reachable and the
  generated id fresh, the answer is 201 with the stored document: it belongs to the
  caller, its \<open>priority\<close>, \<open>status\<close> and \<open>starred\<close> take the defaults \<open>Medium\<close>,
  \<open>backlog\<close> and false when the body lacks them, and \<open>createdAt\<close>,
  \<open>assignedAt\<close> and \<open>assignedAtIST\<close> come from the server's clock. Whatever the
  body carries under those three names changes nothing in the outcome.
\<close>

theorem POST_api_tasks_create:
  "((\<forall>s. b ''title'' = Some (JStr s) \<longrightarrow> s = []) \<longrightarrow>
       POST_api_tasks e now now_ms new_id db uid b = (Json 400 (Error ''Title is required''), db))
   \<and> (b ''title'' = Some (JStr title) \<and> title \<noteq> [] \<and> db = Some d
        \<and> new_id \<notin> set (map task_id (tasks d)) \<longrightarrow>
       (\<exists>doc. POST_api_tasks e now now_ms new_id db uid b
                 = (Json 201 (Task doc), Some (d\<lparr>tasks := tasks d @ [doc]\<rparr>))
          \<and> task_id doc = new_id \<and> task_userId doc = uid
          \<and> map_of (task_fields doc) ''title'' = Some (JStr title)
          \<and> (b ''priority'' = None \<longrightarrow> map_of (task_fields doc) ''priority'' = Some (JStr ''Medium''))
          \<and> (b ''status'' = None \<longrightarrow> map_of (task_fields doc) ''status'' = Some (JStr ''backlog''))
          \<and> (b ''starred'' = None \<longrightarrow> map_of (task_fields doc) ''starred'' = Some (JBool False))
          \<and> map_of (task_fields doc) ''createdAt'' = Some (JNum (of_int now_ms))
          \<and> map_of (task_fields doc) ''assignedAt'' = Some (JStr (toISOString e now))
          \<and> map_of (task_fields doc) ''assignedAtIST'' = Some (JStr (toLocaleString_IN e now))))
   \<and> (k \<in> {''createdAt'', ''assignedAt'', ''assignedAtIST''} \<longrightarrow>
       POST_api_tasks e now now_ms new_id db uid (b(k := v))
         = POST_api_tasks e now now_ms new_id db uid b)"
proof (intro conjI impI)
  assume nt: "\<forall>s. b ''title'' = Some (JStr s) \<longrightarrow> s = []"
  show "POST_api_tasks e now now_ms new_id db uid b = (Json 400 (Error ''Title is required''), db)"
  proof (cases "b ''title''")
    case None
    then show ?thesis by (simp add: POST_api_tasks_def)
  next
    case (Some tv)
    with nt show ?thesis by (cases tv) (simp_all add: POST_api_tasks_def Let_def)
  qed
next
  assume h: "b ''title'' = Some (JStr title) \<and> title \<noteq> [] \<and> db = Some d
        \<and> new_id \<notin> set (map task_id (tasks d))"
  then show "\<exists>doc. POST_api_tasks e now now_ms new_id db uid b
                 = (Json 201 (Task doc), Some (d\<lparr>tasks := tasks d @ [doc]\<rparr>))
          \<and> task_id doc = new_id \<and> task_userId doc = uid
          \<and> map_of (task_fields doc) ''title'' = Some (JStr title)
          \<and> (b ''priority'' = None \<longrightarrow> map_of (task_fields doc) ''priority'' = Some (JStr ''Medium''))
          \<and> (b ''status'' = None \<longrightarrow> map_of (task_fields doc) ''status'' = Some (JStr ''backlog''))
          \<and> (b ''starred'' = None \<longrightarrow> map_of (task_fields doc) ''starred'' = Some (JBool False))
          \<and> map_of (task_fields doc) ''createdAt'' = Some (JNum (of_int now_ms))
          \<and> map_of (task_fields doc) ''assignedAt'' = Some (JStr (toISOString e now))
          \<and> map_of (task_fields doc) ''assignedAtIST'' = Some (JStr (toLocaleString_IN e now))"
    by (simp add: POST_api_tasks_def Let_def tasks_insertOne_def default_to_def)
next
  assume "k \<in> {''createdAt'', ''assignedAt'', ''assignedAtIST''}"
  then have "k \<notin> {''title'', ''priority'', ''status'', ''assignee'', ''starred'', ''deadline''}"
    by auto
  then show "POST_api_tasks e now now_ms new_id db uid (b(k := v))
         = POST_api_tasks e now now_ms new_id db uid b"
    by (rule POST_ignores_field)
qed


theorem POST_api_tasks_create_witness:
  "POST_api_tasks
     \<lparr>toISOString = (\<lambda>t. ''iso''), toLocaleString_IN = (\<lambda>t. ''ist''),
      new_Date = (\<lambda>s. None), String_of = (\<lambda>v. []), ObjectId = (\<lambda>s. None)\<rparr>
     100 101 7 (Some \<lparr>sessions = [], tasks = []\<rparr>) 1 [''title'' \<mapsto> JStr []]
     = (Json 400 (Error ''Title is required''), Some \<lparr>sessions = [], tasks = []\<rparr>)
   \<and> (\<exists>doc. POST_api_tasks
     \<lparr>toISOString = (\<lambda>t. ''iso''), toLocaleString_IN = (\<lambda>t. ''ist''),
      new_Date = (\<lambda>s. None), String_of = (\<lambda>v. []), ObjectId = (\<lambda>s. None)\<rparr>
     100 101 7 (Some \<lparr>sessions = [], tasks = []\<rparr>) 1
     [''title'' \<mapsto> JStr ''Ship v2'', ''priority'' \<mapsto> JStr ''High'', ''createdAt'' \<mapsto> JNum 5]
     = (Json 201 (Task doc), Some \<lparr>sessions = [], tasks = [doc]\<rparr>)
     \<and> map_of (task_fields doc) ''status'' = Some (JStr ''backlog'')
     \<and> map_of (task_fields doc) ''starred'' = Some (JBool False)
     \<and> map_of (task_fields doc) ''createdAt'' = Some (JNum 101)
     \<and> map_of (task_fields doc) ''assignedAt'' = Some (JStr ''iso''))"
proof -
  let ?e = "\<lparr>toISOString = (\<lambda>t. ''iso''), toLocaleString_IN = (\<lambda>t. ''ist''),
      new_Date = (\<lambda>s. None), String_of = (\<lambda>v. []), ObjectId = (\<lambda>s. None)\<rparr>"
  let ?d = "\<lparr>sessions = [], tasks = []\<rparr>"
  let ?be = "[''title'' \<mapsto> JStr []]"
  let ?b = "[''title'' \<mapsto> JStr ''Ship v2'', ''priority'' \<mapsto> JStr ''High'', ''createdAt'' \<mapsto> JNum 5]"
  have h0: "\<forall>s. ?be ''title'' = Some (JStr s) \<longrightarrow> s = []" by simp
  have h1: "?b ''title'' = Some (JStr ''Ship v2'') \<and> ''Ship v2'' \<noteq> [] \<and> Some ?d = Some ?d
        \<and> 7 \<notin> set (map task_id (tasks ?d))" by simp
  have b1: "?b ''status'' = None" "?b ''starred'' = None" by simp_all
  have a: "POST_api_tasks ?e 100 101 7 (Some ?d) 1 ?be
             = (Json 400 (Error ''Title is required''), Some ?d)"
    using POST_api_tasks_create [where b = ?be and e = ?e and now = 100 and now_ms = 101
        and new_id = 7 and db = "Some ?d" and uid = 1] h0
    by blast
  have c: "\<exists>doc. POST_api_tasks ?e 100 101 7 (Some ?d) 1 ?b
       = (Json 201 (Task doc), Some \<lparr>sessions = [], tasks = [doc]\<rparr>)
     \<and> map_of (task_fields doc) ''status'' = Some (JStr ''backlog'')
     \<and> map_of (task_fields doc) ''starred'' = Some (JBool False)
     \<and> map_of (task_fields doc) ''createdAt'' = Some (JNum 101)
     \<and> map_of (task_fields doc) ''assignedAt'' = Some (JStr ''iso'')"
    using POST_api_tasks_create [where b = ?b and e = ?e and now = 100 and now_ms = 101
        and new_id = 7 and db = "Some ?d" and uid = 1 and title = "''Ship v2''" and d = ?d,
        THEN conjunct2, THEN conjunct1, THEN mp, OF h1] b1
    by fastforce
  from a c show ?thesis by (rule conjI)
qed


subsection \<open>Client: dropping a card\<close>

text \<open>
  When \<open>fetch\<close> resolves, with whatever status, the state after the handler is the
  optimistic state; the handler sends one PATCH request whose body holds the status only.
\<close>

lemma on_drop_resolved:
  "on_drop ci i (Resolved code) cl =
     (case drop_begin ci i cl of None \<Rightarrow> (cl, []) | Some (cl', prev, rq) \<Rightarrow> (cl', [rq]))"
  by (simp add: on_drop_def drop_end_def split: option.splits)

lemma drop_begin_status:
  assumes "drop_begin ci i cl = Some (cl', prev, rq)"
  shows "find (\<lambda>t. c_id t = i) (data_tasks cl') = Some \<lparr>c_id = i, c_status = data_status (board cl ! ci)\<rparr>
     \<and> rq = \<lparr>rq_method = ''PATCH'', rq_url = ''/api/tasks/'' @ i,
              rq_body = [(''status'', data_status (board cl ! ci))]\<rparr>"
proof -
  have s: "\<And>t v ts. find (\<lambda>t. c_id t = i) ts = Some t \<Longrightarrow>
      find (\<lambda>t. c_id t = i) (set_status i v ts) = Some \<lparr>c_id = i, c_status = v\<rparr>"
  proof -
    fix t v ts show "find (\<lambda>t. c_id t = i) ts = Some t \<Longrightarrow>
      find (\<lambda>t. c_id t = i) (set_status i v ts) = Some \<lparr>c_id = i, c_status = v\<rparr>"
      by (induction ts) (auto split: if_splits)
  qed
  show ?thesis
    using assms
    by (auto simp: drop_begin_def Let_def updateTasksStatusWidget_def s split: if_splits option.splits)
qed

text \<open>
  C7. The claim: whenever the update call fails, the local status and the card go back
  and the counts are recomputed. The revert is in the \<open>catch\<close> block only, and the
  handler never reads the response: when the server answers the PATCH with 500 (or 401,
  or 404), \<open>fetch\<close> resolves and the task stays in the target column with the counts of
  the optimistic state. With one card dragged from backlog to done: after a 500 the task
  is \<open>done\<close> and the done column counts 1; after a rejected \<open>fetch\<close> the state is the
  one before the drop.
\<close>

theorem on_drop_http_error_not_reverted:
  "on_drop 3 ''1'' (Resolved 500)
     \<lparr>data_tasks = [\<lparr>c_id = ''1'', c_status = ''backlog''\<rparr>],
      board = [\<lparr>data_status = ''backlog'', column_body = [''1''], count_text = 1\<rparr>,
               \<lparr>data_status = ''in-progress'', column_body = [], count_text = 0\<rparr>,
               \<lparr>data_status = ''review'', column_body = [], count_text = 0\<rparr>,
               \<lparr>data_status = ''done'', column_body = [], count_text = 0\<rparr>],
      widget = \<lparr>rb = 100, rp = 0, rr = 0, rd = 0\<rparr>,
      legend = \<lparr>backlog_n = 1, progress_n = 0, review_n = 0, done_n = 0\<rparr>\<rparr>
   = (\<lparr>data_tasks = [\<lparr>c_id = ''1'', c_status = ''done''\<rparr>],
      board = [\<lparr>data_status = ''backlog'', column_body = [], count_text = 0\<rparr>,
               \<lparr>data_status = ''in-progress'', column_body = [], count_text = 0\<rparr>,
               \<lparr>data_status = ''review'', column_body = [], count_text = 0\<rparr>,
               \<lparr>data_status = ''done'', column_body = [''1''], count_text = 1\<rparr>],
      widget = \<lparr>rb = 0, rp = 0, rr = 0, rd = 100\<rparr>,
      legend = \<lparr>backlog_n = 0, progress_n = 0, review_n = 0, done_n = 1\<rparr>\<rparr>,
     [\<lparr>rq_method = ''PATCH'', rq_url = ''/api/tasks/1'', rq_body = [(''status'', ''done'')]\<rparr>])
   \<and> on_drop 3 ''1'' Rejected
     \<lparr>data_tasks = [\<lparr>c_id = ''1'', c_status = ''backlog''\<rparr>],
      board = [\<lparr>data_status = ''backlog'', column_body = [''1''], count_text = 1\<rparr>,
               \<lparr>data_status = ''in-progress'', column_body = [], count_text = 0\<rparr>,
               \<lparr>data_status = ''review'', column_body = [], count_text = 0\<rparr>,
               \<lparr>data_status = ''done'', column_body = [], count_text = 0\<rparr>],
      widget = \<lparr>rb = 100, rp = 0, rr = 0, rd = 0\<rparr>,
      legend = \<lparr>backlog_n = 1, progress_n = 0, review_n = 0, done_n = 0\<rparr>\<rparr>
   = (\<lparr>data_tasks = [\<lparr>c_id = ''1'', c_status = ''backlog''\<rparr>],
      board = [\<lparr>data_status = ''backlog'', column_body = [''1''], count_text = 1\<rparr>,
               \<lparr>data_status = ''in-progress'', column_body = [], count_text = 0\<rparr>,
               \<lparr>data_status = ''review'', column_body = [], count_text = 0\<rparr>,
               \<lparr>data_status = ''done'', column_body = [], count_text = 0\<rparr>],
      widget = \<lparr>rb = 100, rp = 0, rr = 0, rd = 0\<rparr>,
      legend = \<lparr>backlog_n = 1, progress_n = 0, review_n = 0, done_n = 0\<rparr>\<rparr>,
     [\<lparr>rq_method = ''PATCH'', rq_url = ''/api/tasks/1'', rq_body = [(''status'', ''done'')]\<rparr>])"
  by code_simp


end
